theory Spec2Isabelle
  imports Complex_Main
begin

section \<open>JavaScript values\<close>

text \<open>
  The service is TypeScript, so every type annotation is erased at run time: a request
  body is whatever JSON the client sent, and a stored employee is a plain object. Values
  are modelled as they exist at run time. Numbers are IEEE doubles in the source; they are
  modelled as reals, which agrees with the source on every comparison the code makes
  between finite numbers. NaN and the infinities are not modelled: JSON cannot carry NaN,
  and a JSON literal beyond the range of a double parses to an infinity.
\<close>

datatype jsval =
    JUndefined
  | JNull
  | JBool bool
  | JNum real
  | JStr string
  | JDate int
  | JArr "jsval list"
  | JObj "(string \<times> jsval) list"

text \<open>
  A top-level object (request body, employee) is the finite map of its own enumerable
  properties. Reading a property that is absent yields \<open>undefined\<close>.
\<close>

type_synonym jsobj = "string \<rightharpoonup> jsval"

definition getProp :: "jsobj \<Rightarrow> string \<Rightarrow> jsval" where
  "getProp ob k = (case ob k of None \<Rightarrow> JUndefined | Some v \<Rightarrow> v)"

text \<open>\<open>!x\<close> is \<open>\<not> truthy x\<close>: the falsy values are undefined, null, false, 0 and the empty string.\<close>

fun truthy :: "jsval \<Rightarrow> bool" where
  "truthy JUndefined = False"
| "truthy JNull = False"
| "truthy (JBool b) = b"
| "truthy (JNum r) = (r \<noteq> 0)"
| "truthy (JStr s) = (s \<noteq> [])"
| "truthy (JDate t) = True"
| "truthy (JArr vs) = True"
| "truthy (JObj ps) = True"

fun typeof :: "jsval \<Rightarrow> string" where
  "typeof JUndefined = ''undefined''"
| "typeof JNull = ''object''"
| "typeof (JBool b) = ''boolean''"
| "typeof (JNum r) = ''number''"
| "typeof (JStr s) = ''string''"
| "typeof (JDate t) = ''object''"
| "typeof (JArr vs) = ''object''"
| "typeof (JObj ps) = ''object''"

text \<open>
  \<open>x < c\<close> for a numeric constant \<open>c\<close>. The source only evaluates it after
  \<open>typeof x === 'number'\<close> has been established, so the other cases are never reached.
\<close>

fun numLess :: "jsval \<Rightarrow> real \<Rightarrow> bool" where
  "numLess (JNum r) c = (r < c)"
| "numLess v c = False"

text \<open>Object spread \<open>{...a, ...b}\<close>: the properties of \<open>b\<close> win.\<close>

definition spread :: "jsobj \<Rightarrow> jsobj \<Rightarrow> jsobj" where
  "spread a b = a ++ b"

section \<open>The built-in Map\<close>

text \<open>
  A JavaScript \<open>Map\<close> enumerates its entries in insertion order: \<open>set\<close> on a key that is
  present replaces the value where it stands, \<open>set\<close> on a new key appends, \<open>delete\<close>
  removes the entry and reports whether there was one. Keys are compared structurally here,
  which is exact for the primitive keys (strings, numbers, booleans, null) and differs from
  JavaScript's reference identity only for object, array and Date keys.
\<close>

type_synonym ('k, 'v) jsMap = "('k \<times> 'v) list"

fun Map_get :: "('k, 'v) jsMap \<Rightarrow> 'k \<Rightarrow> 'v option" where
  "Map_get [] k = None"
| "Map_get ((k', v') # m) k = (if k' = k then Some v' else Map_get m k)"

fun Map_has :: "('k, 'v) jsMap \<Rightarrow> 'k \<Rightarrow> bool" where
  "Map_has [] k = False"
| "Map_has ((k', v') # m) k = (if k' = k then True else Map_has m k)"

fun Map_set :: "('k, 'v) jsMap \<Rightarrow> 'k \<Rightarrow> 'v \<Rightarrow> ('k, 'v) jsMap" where
  "Map_set [] k v = [(k, v)]"
| "Map_set ((k', v') # m) k v = (if k' = k then (k, v) # m else (k', v') # Map_set m k v)"

fun Map_delete :: "('k, 'v) jsMap \<Rightarrow> 'k \<Rightarrow> ('k, 'v) jsMap" where
  "Map_delete [] k = []"
| "Map_delete ((k', v') # m) k = (if k' = k then m else (k', v') # Map_delete m k)"

definition Map_values :: "('k, 'v) jsMap \<Rightarrow> 'v list" where
  "Map_values m = map snd m"

definition Map_keys :: "('k, 'v) jsMap \<Rightarrow> 'k list" where
  "Map_keys m = map fst m"

definition Map_size :: "('k, 'v) jsMap \<Rightarrow> nat" where
  "Map_size m = length m"

text \<open>The representation invariant of a Map: no key occurs twice.\<close>

definition Map_ok :: "('k, 'v) jsMap \<Rightarrow> bool" where
  "Map_ok m = distinct (Map_keys m)"

text \<open>
  \<open>Array.prototype.slice(start, end)\<close> on integer arguments: a negative index counts from
  the end, both indices are clamped to the array, and an empty range yields the empty array.
\<close>

definition slice :: "'a list \<Rightarrow> int \<Rightarrow> int \<Rightarrow> 'a list" where
  "slice xs start fin =
     (let len = int (length xs);
          k = (if start < 0 then max (len + start) 0 else min start len);
          final = (if fin < 0 then max (len + fin) 0 else min fin len)
      in take (nat (final - k)) (drop (nat k) xs))"

section \<open>The employee store\<close>

type_synonym Employee = jsobj

record EmployeeStore =
  employees :: "(jsval, Employee) jsMap"

record Pagination =
  page :: int
  limit :: int
  total :: int
  totalPages :: int
  hasNext :: bool
  hasPrev :: bool

record PaginatedResponse =
  data :: "Employee list"
  pagination :: Pagination

text \<open>
  The generators (uuid, faker) are external libraries. \<open>uuidv4()\<close> and the faker calls
  without options return strings, which are inputs of the model as they come. The three
  faker calls with options are modelled by the library's documented contract, applied to a
  raw random draw:
  \<^item> \<open>faker.number.int({min, max})\<close> is an integer from \<open>min\<close> to \<open>max\<close>, both included;
  \<^item> \<open>faker.date.past({years})\<close> is a date before the reference date, which is the current
    time: at least one second and at most \<open>years\<close> years of 365 days before it (in
    milliseconds);
  \<^item> \<open>faker.datatype.boolean({probability})\<close> is true when a uniform draw from \<open>[0, 1)\<close>
    is below \<open>probability\<close>.
\<close>

definition faker_number_int :: "int \<Rightarrow> int \<Rightarrow> int \<Rightarrow> int" where
  "faker_number_int mn mx r = mn + r mod (mx - mn + 1)"

definition faker_date_past :: "int \<Rightarrow> int \<Rightarrow> int \<Rightarrow> int" where
  "faker_date_past years refDate r =
     refDate - faker_number_int 1000 (years * 365 * 24 * 3600 * 1000) r"

definition faker_datatype_boolean :: "real \<Rightarrow> real \<Rightarrow> bool" where
  "faker_datatype_boolean probability u = (u < probability)"

text \<open>
  What one iteration of the seeding loop takes from outside: the strings the generators
  return, the raw draws behind the three calls above, and the clock at that moment (read
  by \<open>faker.date.past\<close> as its reference date, never by \<open>seedData\<close> itself).
\<close>

record seedDraw =
  uuidv4 :: string
  person_firstName :: string
  person_lastName :: string
  internet_email :: string
  person_jobTitle :: string
  commerce_department :: string
  number_draw :: int
  date_draw :: int
  boolean_draw :: real
  clock :: int

definition seedEmployee :: "seedDraw \<Rightarrow> Employee" where
  "seedEmployee d =
     [''id'' \<mapsto> JStr (uuidv4 d),
      ''firstName'' \<mapsto> JStr (person_firstName d),
      ''lastName'' \<mapsto> JStr (person_lastName d),
      ''email'' \<mapsto> JStr (internet_email d),
      ''position'' \<mapsto> JStr (person_jobTitle d),
      ''department'' \<mapsto> JStr (commerce_department d),
      ''salary'' \<mapsto> JNum (of_int (faker_number_int 30000 150000 (number_draw d))),
      ''hireDate'' \<mapsto> JDate (faker_date_past 10 (clock d) (date_draw d)),
      ''isActive'' \<mapsto> JBool (faker_datatype_boolean (9 / 10) (boolean_draw d))]"

text \<open>The loop \<open>for (let i = 0; i < 10000; i++)\<close> of \<open>seedData\<close>, from counter \<open>i\<close> on.\<close>

function seedLoop :: "(nat \<Rightarrow> seedDraw) \<Rightarrow> nat \<Rightarrow> EmployeeStore \<Rightarrow> EmployeeStore" where
  "seedLoop draw i s =
     (if i < 10000
      then (let employee = seedEmployee (draw i)
            in seedLoop draw (i + 1)
                 (s\<lparr>employees := Map_set (employees s) (getProp employee ''id'') employee\<rparr>))
      else s)"
  by pat_completeness auto
termination
  by (relation "measure (\<lambda>(draw, i, s). 10000 - i)") auto

declare seedLoop.simps [simp del]

definition seedData :: "(nat \<Rightarrow> seedDraw) \<Rightarrow> EmployeeStore \<Rightarrow> EmployeeStore" where
  "seedData draw s = seedLoop draw 0 s"

text \<open>The constructor: an empty Map, then \<open>seedData\<close>.\<close>

definition newEmployeeStore :: "(nat \<Rightarrow> seedDraw) \<Rightarrow> EmployeeStore" where
  "newEmployeeStore draw = seedData draw \<lparr>employees = []\<rparr>"

text \<open>
  \<open>create\<close>: \<open>uuid\<close> is the value of \<open>uuidv4()\<close> and \<open>now\<close> that of \<open>new Date()\<close>. The
  payload is spread after the generated id and before hireDate and isActive.
\<close>

definition create :: "string \<Rightarrow> int \<Rightarrow> jsobj \<Rightarrow> EmployeeStore \<Rightarrow> Employee \<times> EmployeeStore" where
  "create uuid now employeeData s =
     (let employee = (spread [''id'' \<mapsto> JStr uuid] employeeData)
                       (''hireDate'' \<mapsto> JDate now, ''isActive'' \<mapsto> JBool True)
      in (employee, s\<lparr>employees := Map_set (employees s) (getProp employee ''id'') employee\<rparr>))"

definition findById :: "EmployeeStore \<Rightarrow> string \<Rightarrow> Employee option" where
  "findById s eid = Map_get (employees s) (JStr eid)"

text \<open>
  \<open>findAll\<close> on integer arguments. Its only caller passes the results of \<open>parseInt\<close>
  after refusing \<open>page < 1\<close>, \<open>limit < 1\<close> and \<open>limit > 100\<close>; the NaN of an unparsable
  query string passes that check and is not modelled.
\<close>

definition findAll :: "EmployeeStore \<Rightarrow> int \<Rightarrow> int \<Rightarrow> PaginatedResponse" where
  "findAll s pg lm =
     (let allEmployees = Map_values (employees s);
          total' = int (length allEmployees);
          totalPages' = \<lceil>real_of_int total' / real_of_int lm\<rceil>;
          startIndex = (pg - 1) * lm;
          endIndex = startIndex + lm;
          data' = slice allEmployees startIndex endIndex
      in \<lparr>data = data',
          pagination = \<lparr>page = pg, limit = lm, total = total', totalPages = totalPages',
                         hasNext = (pg < totalPages'), hasPrev = (pg > 1)\<rparr>\<rparr>)"

text \<open>\<open>update\<close> returns \<open>null\<close> (here \<open>None\<close>) for an unknown id and touches nothing then.\<close>

definition update :: "string \<Rightarrow> jsobj \<Rightarrow> EmployeeStore \<Rightarrow> Employee option \<times> EmployeeStore" where
  "update eid updateData s =
     (case Map_get (employees s) (JStr eid) of
        None \<Rightarrow> (None, s)
      | Some employee \<Rightarrow>
          (let updatedEmployee = spread employee updateData
           in (Some updatedEmployee,
               s\<lparr>employees := Map_set (employees s) (JStr eid) updatedEmployee\<rparr>)))"

definition delete :: "string \<Rightarrow> EmployeeStore \<Rightarrow> bool \<times> EmployeeStore" where
  "delete eid s =
     (Map_has (employees s) (JStr eid), s\<lparr>employees := Map_delete (employees s) (JStr eid)\<rparr>)"

definition count :: "EmployeeStore \<Rightarrow> nat" where
  "count s = Map_size (employees s)"

section \<open>The request layer\<close>

text \<open>
  A route receives \<open>req.body\<close> as the JSON parser left it: any object, with any properties,
  or \<open>undefined\<close> (here \<open>None\<close>) when the parser of the framework leaves the body unset for
  a request without a parsed body. The external values a route consumes (the uuid, the
  clock) are arguments of its model, and a route returns its response together with the
  store it leaves behind.
\<close>

text \<open>The properties an object spread takes from a body: none from \<open>undefined\<close>.\<close>

definition ownProps :: "jsobj option \<Rightarrow> jsobj" where
  "ownProps reqBody = (case reqBody of None \<Rightarrow> Map.empty | Some ob \<Rightarrow> ob)"

datatype resBody =
    ErrorJson string
  | EmployeeJson Employee
  | MessageJson string
  | ErrorPage

record Response =
  status :: nat
  body :: resBody

text \<open>
  What a middleware does: it throws, it answers the request itself, or it calls \<open>next()\<close>.
\<close>

datatype middleware = Throws | Responds Response | Next

text \<open>
  The validation middleware. Its first statement destructures \<open>req.body\<close> with no guard,
  which throws a TypeError when the body is \<open>undefined\<close>.
\<close>

definition validateCreateEmployee :: "jsobj option \<Rightarrow> middleware" where
  "validateCreateEmployee reqBody =
     (case reqBody of
        None \<Rightarrow> Throws
      | Some ob \<Rightarrow>
          (let firstName = getProp ob ''firstName'';
               lastName = getProp ob ''lastName'';
               email = getProp ob ''email'';
               position = getProp ob ''position'';
               department = getProp ob ''department'';
               salary = getProp ob ''salary''
           in if \<not> truthy firstName \<or> \<not> truthy lastName \<or> \<not> truthy email \<or> \<not> truthy position
                 \<or> \<not> truthy department \<or> typeof salary \<noteq> ''number''
              then Responds \<lparr>status = 400, body = ErrorJson
                     ''Missing required fields: firstName, lastName, email, position, department, salary''\<rparr>
              else if numLess salary 0
              then Responds \<lparr>status = 400, body = ErrorJson ''Salary must be a positive number''\<rparr>
              else Next))"

text \<open>
  \<open>POST /employees\<close>: the middleware first, then the handler. An error thrown by the
  middleware is outside the handler's \<open>try\<close>; the framework's default error handler answers
  it with status 500 and its own error page. \<open>create\<close> itself throws nothing.
\<close>

definition postEmployees :: "string \<Rightarrow> int \<Rightarrow> jsobj option \<Rightarrow> EmployeeStore \<Rightarrow> Response \<times> EmployeeStore" where
  "postEmployees uuid now reqBody s =
     (case validateCreateEmployee reqBody of
        Throws \<Rightarrow> (\<lparr>status = 500, body = ErrorPage\<rparr>, s)
      | Responds res \<Rightarrow> (res, s)
      | Next \<Rightarrow>
          (let (employee, s') = create uuid now (ownProps reqBody) s
           in (\<lparr>status = 201, body = EmployeeJson employee\<rparr>, s')))"

text \<open>\<open>GET /employees/:id\<close>.\<close>

definition getEmployee :: "string \<Rightarrow> EmployeeStore \<Rightarrow> Response" where
  "getEmployee eid s =
     (case findById s eid of
        None \<Rightarrow> \<lparr>status = 404, body = ErrorJson ''Employee not found''\<rparr>
      | Some employee \<Rightarrow> \<lparr>status = 200, body = EmployeeJson employee\<rparr>)"

text \<open>
  \<open>PUT /employees/:id\<close>: the body goes to \<open>update\<close> as it is. Spreading \<open>undefined\<close> adds
  no property, so an unset body is the empty map here.
\<close>

definition putEmployee :: "string \<Rightarrow> jsobj \<Rightarrow> EmployeeStore \<Rightarrow> Response \<times> EmployeeStore" where
  "putEmployee eid reqBody s =
     (case update eid reqBody s of
        (None, s') \<Rightarrow> (\<lparr>status = 404, body = ErrorJson ''Employee not found''\<rparr>, s')
      | (Some updatedEmployee, s') \<Rightarrow> (\<lparr>status = 200, body = EmployeeJson updatedEmployee\<rparr>, s'))"

text \<open>\<open>DELETE /employees/:id\<close>.\<close>

definition deleteEmployee :: "string \<Rightarrow> EmployeeStore \<Rightarrow> Response \<times> EmployeeStore" where
  "deleteEmployee eid s =
     (case delete eid s of
        (False, s') \<Rightarrow> (\<lparr>status = 404, body = ErrorJson ''Employee not found''\<rparr>, s')
      | (True, s') \<Rightarrow> (\<lparr>status = 200, body = MessageJson ''Employee deleted successfully''\<rparr>, s'))"

text \<open>The payload of the integration tests' successful \<open>POST /employees\<close>.\<close>

definition johnDoe :: jsobj where
  "johnDoe =
     [''firstName'' \<mapsto> JStr ''John'',
      ''lastName'' \<mapsto> JStr ''Doe'',
      ''email'' \<mapsto> JStr ''john.doe@example.com'',
      ''position'' \<mapsto> JStr ''Software Engineer'',
      ''department'' \<mapsto> JStr ''Engineering'',
      ''salary'' \<mapsto> JNum 75000]"

text \<open>
  A run of the generators used for concrete evaluation: the uuids are pairwise different,
  the clock stands at 2025-11-02 00:00 UTC, the date draw puts hireDate five years of 365
  days before it, and the boolean draw 0.95 is not below 0.9.
\<close>

definition exampleDraw :: "nat \<Rightarrow> seedDraw" where
  "exampleDraw i =
     \<lparr>uuidv4 = replicate (Suc i) (CHR ''u''),
      person_firstName = ''Ada'',
      person_lastName = ''Lovelace'',
      internet_email = ''ada@example.com'',
      person_jobTitle = ''Analyst'',
      commerce_department = ''Books'',
      number_draw = 45000,
      date_draw = 157679999000,
      boolean_draw = 95 / 100,
      clock = 1762041600000\<rparr>"


text \<open>The invariant of the data model on one record and on the table: a numeric salary, not below 0.\<close>

definition salaryNonNegative :: "Employee \<Rightarrow> bool" where
  "salaryNonNegative e = (case getProp e ''salary'' of JNum r \<Rightarrow> 0 \<le> r | _ \<Rightarrow> False)"

definition allSalariesNonNegative :: "EmployeeStore \<Rightarrow> bool" where
  "allSalariesNonNegative s = list_all salaryNonNegative (Map_values (employees s))"

text \<open>The table after that request on an empty table, with uuid \<open>e1\<close> at time 0, and its record.\<close>

definition johnRecord :: Employee where
  "johnRecord = fst (create ''e1'' 0 johnDoe \<lparr>employees = []\<rparr>)"

definition johnStore :: EmployeeStore where
  "johnStore = snd (create ''e1'' 0 johnDoe \<lparr>employees = []\<rparr>)"

section \<open>Facts about the Map\<close>


lemma Map_has_get: "Map_has m k = (Map_get m k \<noteq> None)"
  by (induction m) (auto split: if_splits)

lemma Map_get_None_iff: "(Map_get m k = None) = (k \<notin> set (Map_keys m))"
  by (induction m) (auto simp: Map_keys_def split: if_splits)

lemma Map_get_set: "Map_get (Map_set m k v) k' = (if k' = k then Some v else Map_get m k')"
  by (induction m) auto

lemma Map_set_fresh: "Map_get m k = None \<Longrightarrow> Map_set m k v = m @ [(k, v)]"
  by (induction m) (auto split: if_splits)


lemma Map_keys_set_present: "Map_get m k \<noteq> None \<Longrightarrow> Map_keys (Map_set m k v) = Map_keys m"
  by (induction m) (auto simp: Map_keys_def split: if_splits)

lemma Map_size_set: "Map_size (Map_set m k v) = (if Map_get m k = None then Map_size m + 1 else Map_size m)"
  by (induction m) (auto simp: Map_size_def split: if_splits)

lemma Map_ok_set: "Map_ok m \<Longrightarrow> Map_ok (Map_set m k v)"
  by (cases "Map_get m k = None")
     (auto simp: Map_ok_def Map_set_fresh Map_keys_set_present Map_get_None_iff, simp add: Map_keys_def)

lemma Map_delete_absent: "Map_get m k = None \<Longrightarrow> Map_delete m k = m"
  by (induction m) (auto split: if_splits)

lemma Map_delete_filter: "Map_ok m \<Longrightarrow> Map_delete m k = filter (\<lambda>e. fst e \<noteq> k) m"
proof (induction m)
  case Nil
  then show ?case by simp
next
  case (Cons p m)
  obtain k' v' where p: "p = (k', v')" by (cases p)
  from Cons.prems p have ok: "Map_ok m" and notin: "k' \<notin> fst ` set m"
    by (auto simp: Map_ok_def Map_keys_def)
  show ?case
  proof (cases "k' = k")
    case True
    with notin have "filter (\<lambda>e. fst e \<noteq> k) m = m"
      by (auto simp: filter_id_conv)
    with True p show ?thesis by simp
  next
    case False
    with p Cons.IH[OF ok] show ?thesis by simp
  qed
qed

lemma Map_ok_delete: "Map_ok m \<Longrightarrow> Map_ok (Map_delete m k)"
  by (simp add: Map_delete_filter) (simp add: Map_ok_def Map_keys_def distinct_map_filter)

lemma Map_get_delete:
  "Map_ok m \<Longrightarrow> Map_get (Map_delete m k) k' = (if k' = k then None else Map_get m k')"
proof -
  have "Map_get (filter (\<lambda>e. fst e \<noteq> k) m) k' = (if k' = k then None else Map_get m k')"
    by (induction m) (auto split: if_splits)
  then show "Map_ok m \<Longrightarrow> ?thesis" by (simp add: Map_delete_filter)
qed

lemma Map_size_delete:
  "Map_get m k \<noteq> None \<Longrightarrow> Map_size (Map_delete m k) + 1 = Map_size m"
  by (induction m) (auto simp: Map_size_def split: if_splits)

section \<open>Facts about the store operations\<close>

lemma findById_None_iff: "(findById s eid = None) = (JStr eid \<notin> set (Map_keys (employees s)))"
  by (simp add: findById_def Map_get_None_iff)

lemma create_employee:
  "fst (create uuid now employeeData s) =
     (spread [''id'' \<mapsto> JStr uuid] employeeData)(''hireDate'' \<mapsto> JDate now, ''isActive'' \<mapsto> JBool True)"
  by (simp add: create_def Let_def)

lemma create_store:
  "employees (snd (create uuid now employeeData s)) =
     Map_set (employees s) (getProp (fst (create uuid now employeeData s)) ''id'')
       (fst (create uuid now employeeData s))"
  by (simp add: create_def Let_def)

lemma create_id:
  "employeeData ''id'' = None \<Longrightarrow> getProp (fst (create uuid now employeeData s)) ''id'' = JStr uuid"
  by (simp add: create_employee getProp_def spread_def map_add_def)

lemma Map_ok_create: "Map_ok (employees s) \<Longrightarrow> Map_ok (employees (snd (create uuid now employeeData s)))"
  by (simp add: create_store Map_ok_set)

lemma Map_ok_update: "Map_ok (employees s) \<Longrightarrow> Map_ok (employees (snd (update eid updateData s)))"
  by (simp add: update_def Let_def Map_ok_set split: option.splits)

lemma Map_ok_delete_store: "Map_ok (employees s) \<Longrightarrow> Map_ok (employees (snd (delete eid s)))"
  by (simp add: delete_def Map_ok_delete)

lemma johnDoe_no_id: "johnDoe ''id'' = None"
  by (simp add: johnDoe_def)

lemma johnRecord_id: "johnRecord ''id'' = Some (JStr ''e1'')"
  by (simp add: johnRecord_def create_employee spread_def johnDoe_def)

lemma johnStore_employees: "employees johnStore = [(JStr ''e1'', johnRecord)]"
  by (simp add: johnStore_def johnRecord_def create_store create_id johnDoe_no_id)

lemma update_found:
  "findById s eid = Some employee \<Longrightarrow>
     update eid updateData s =
       (Some (spread employee updateData),
        s\<lparr>employees := Map_set (employees s) (JStr eid) (spread employee updateData)\<rparr>)"
  by (simp add: update_def findById_def Let_def)

lemma validate_rejects:
  assumes "ob ''firstName'' = None \<or> ob ''lastName'' = None \<or> ob ''email'' = None
         \<or> ob ''position'' = None \<or> ob ''department'' = None
         \<or> (\<forall>r. ob ''salary'' \<noteq> Some (JNum r))
         \<or> (\<exists>r<0. ob ''salary'' = Some (JNum r))"
  shows "\<exists>msg. validateCreateEmployee (Some ob) = Responds \<lparr>status = 400, body = ErrorJson msg\<rparr>"
proof -
  have ty: "typeof v = ''number'' \<Longrightarrow> \<exists>r. v = JNum r" for v
    by (cases v) simp_all
  have und: "o' k = None \<Longrightarrow> \<not> truthy (getProp o' k)" for o' :: jsobj and k
    by (simp add: getProp_def)
  show ?thesis
  proof (cases "\<not> truthy (getProp ob ''firstName'') \<or> \<not> truthy (getProp ob ''lastName'')
      \<or> \<not> truthy (getProp ob ''email'') \<or> \<not> truthy (getProp ob ''position'')
      \<or> \<not> truthy (getProp ob ''department'') \<or> typeof (getProp ob ''salary'') \<noteq> ''number''")
    case True
    then show ?thesis by (simp add: validateCreateEmployee_def Let_def)
  next
    case False
    then have present: "ob ''firstName'' \<noteq> None" "ob ''lastName'' \<noteq> None"
        "ob ''email'' \<noteq> None" "ob ''position'' \<noteq> None" "ob ''department'' \<noteq> None"
      using und by blast+
    from False have "typeof (getProp ob ''salary'') = ''number''" by blast
    from ty[OF this] obtain r where r: "getProp ob ''salary'' = JNum r" by blast
    then have sr: "ob ''salary'' = Some (JNum r)"
      by (auto simp: getProp_def split: option.splits)
    with assms present have "r < 0" by auto
    with r have "numLess (getProp ob ''salary'') 0" by simp
    with False show ?thesis by (simp add: validateCreateEmployee_def Let_def)
  qed
qed

text \<open>
  On an object body the middleware does what the route promises: a body that lacks
  firstName, lastName, email, position or department, or whose salary is not a number or
  is a negative number, is answered 400 with an error message, and the store is left alone.
\<close>

lemma post_rejects_object_body:
  assumes "ob ''firstName'' = None \<or> ob ''lastName'' = None \<or> ob ''email'' = None
         \<or> ob ''position'' = None \<or> ob ''department'' = None
         \<or> (\<forall>r. ob ''salary'' \<noteq> Some (JNum r))
         \<or> (\<exists>r<0. ob ''salary'' = Some (JNum r))"
  shows "\<exists>msg. postEmployees uuid now (Some ob) s = (\<lparr>status = 400, body = ErrorJson msg\<rparr>, s)"
proof -
  from validate_rejects[OF assms] obtain msg
    where "validateCreateEmployee (Some ob) = Responds \<lparr>status = 400, body = ErrorJson msg\<rparr>"
    by blast
  then have "postEmployees uuid now (Some ob) s = (\<lparr>status = 400, body = ErrorJson msg\<rparr>, s)"
    by (simp add: postEmployees_def)
  then show ?thesis by blast
qed

lemma Map_get_in_values: "Map_get m k = Some v \<Longrightarrow> v \<in> set (Map_values m)"
  by (induction m) (auto simp: Map_values_def split: if_splits)

lemma Map_set_subset: "set (Map_set m k v) \<subseteq> insert (k, v) (set m)"
  by (induction m) (auto split: if_splits)

lemma Map_delete_subset: "set (Map_delete m k) \<subseteq> set m"
  by (induction m) (auto split: if_splits)

lemma Map_values_set_subset: "set (Map_values (Map_set m k v)) \<subseteq> insert v (set (Map_values m))"
  using Map_set_subset[of m k v] by (force simp: Map_values_def)

lemma Map_values_delete_subset: "set (Map_values (Map_delete m k)) \<subseteq> set (Map_values m)"
  using Map_delete_subset[of m k] by (force simp: Map_values_def)

lemma validate_accepts_salary:
  assumes "validateCreateEmployee reqBody = Next"
  shows "\<exists>ob r. reqBody = Some ob \<and> 0 \<le> r \<and> ob ''salary'' = Some (JNum r)"
proof -
  from assms obtain ob where ob: "reqBody = Some ob"
    by (cases reqBody) (simp_all add: validateCreateEmployee_def)
  from assms ob have ty: "typeof (getProp ob ''salary'') = ''number''"
    and nl: "\<not> numLess (getProp ob ''salary'') 0"
    by (auto simp: validateCreateEmployee_def Let_def split: if_splits)
  from ty obtain r where r: "getProp ob ''salary'' = JNum r"
    by (cases "getProp ob ''salary''") simp_all
  then have "ob ''salary'' = Some (JNum r)"
    by (auto simp: getProp_def split: option.splits)
  moreover from nl r have "0 \<le> r" by simp
  ultimately show ?thesis using ob by blast
qed

lemma post_keeps_salaries:
  assumes "allSalariesNonNegative s"
  shows "allSalariesNonNegative (snd (postEmployees uuid now reqBody s))"
proof (cases "validateCreateEmployee reqBody")
  case Throws
  with assms show ?thesis by (simp add: postEmployees_def)
next
  case (Responds res)
  with assms show ?thesis by (simp add: postEmployees_def)
next
  case Next
  from validate_accepts_salary[OF Next] obtain ob r
    where ob: "reqBody = Some ob" and r: "0 \<le> r" "ob ''salary'' = Some (JNum r)"
    by blast
  let ?e = "fst (create uuid now ob s)"
  have "?e ''salary'' = Some (JNum r)"
    using r(2) by (simp add: create_employee spread_def map_add_def)
  with r(1) have ok: "salaryNonNegative ?e" by (simp add: salaryNonNegative_def getProp_def)
  have "set (Map_values (employees (snd (create uuid now ob s))))
          \<subseteq> insert ?e (set (Map_values (employees s)))"
    by (simp add: create_store Map_values_set_subset)
  with ok assms have "allSalariesNonNegative (snd (create uuid now ob s))"
    by (auto simp: allSalariesNonNegative_def list_all_iff)
  with Next ob show ?thesis by (simp add: postEmployees_def ownProps_def split_beta)
qed

lemma delete_keeps_salaries:
  assumes "allSalariesNonNegative s"
  shows "allSalariesNonNegative (snd (deleteEmployee eid s))"
proof -
  have "snd (deleteEmployee eid s) = snd (delete eid s)"
    by (simp add: deleteEmployee_def split: prod.splits bool.splits)
  moreover have "set (Map_values (employees (snd (delete eid s)))) \<subseteq> set (Map_values (employees s))"
    by (simp add: delete_def Map_values_delete_subset)
  ultimately show ?thesis using assms by (auto simp: allSalariesNonNegative_def list_all_iff)
qed

lemma post_johnDoe:
  "postEmployees uuid now (Some johnDoe) s =
     (\<lparr>status = 201, body = EmployeeJson (fst (create uuid now johnDoe s))\<rparr>,
      snd (create uuid now johnDoe s))"
proof -
  have "validateCreateEmployee (Some johnDoe) = Next"
    by (simp add: validateCreateEmployee_def johnDoe_def getProp_def)
  then show ?thesis by (simp add: postEmployees_def ownProps_def split_beta)
qed

lemma slice_window:
  assumes "0 \<le> a" and "0 \<le> n"
  shows "slice xs a (a + n) = take (nat n) (drop (nat a) xs)"
proof (cases "a \<le> int (length xs)")
  case True
  with assms have "take (nat (min (a + n) (int (length xs)) - a)) (drop (nat a) xs)
      = take (nat n) (drop (nat a) xs)"
    by (cases "a + n \<le> int (length xs)") (simp_all add: min_def)
  with assms True show ?thesis by (simp add: slice_def Let_def min_def)
next
  case False
  with assms show ?thesis by (simp add: slice_def Let_def min_def)
qed

lemma findAll_data:
  assumes "1 \<le> pg" and "1 \<le> lm"
  shows "data (findAll s pg lm) = take (nat lm) (drop (nat ((pg - 1) * lm)) (Map_values (employees s)))"
proof -
  from assms have "0 \<le> (pg - 1) * lm" by simp
  moreover from assms have "0 \<le> lm" by simp
  ultimately show ?thesis by (simp add: findAll_def Let_def slice_window)
qed

lemma ceiling_div_int:
  assumes "0 < (l::int)"
  shows "\<lceil>real_of_int t / real_of_int l\<rceil> = (t + l - 1) div l"
proof -
  define q where "q = (- t) div l"
  define r where "r = (- t) mod l"
  have r: "0 \<le> r" "r < l" using assms by (simp_all add: r_def)
  have "- t = q * l + r" by (simp add: q_def r_def)
  then have "t + l - 1 = (- q) * l + (l - 1 - r)" by (simp add: algebra_simps)
  then have "(t + l - 1) div l = ((- q) * l + (l - 1 - r)) div l" by (simp only:)
  also have "\<dots> = - q + (l - 1 - r) div l"
    by (rule div_mult_self3) (use assms in simp)
  also have "(l - 1 - r) div l = 0"
    using r by (intro div_pos_pos_trivial) simp_all
  finally have "(t + l - 1) div l = - q" by simp
  moreover have "\<lceil>real_of_int t / real_of_int l\<rceil> = - q"
    unfolding q_def by (rule ceiling_divide_eq_div)
  ultimately show ?thesis by simp
qed

section \<open>Facts about seeding\<close>

lemma seedEmployee_id: "getProp (seedEmployee d) ''id'' = JStr (uuidv4 d)"
  by (simp add: seedEmployee_def getProp_def)

lemma seedLoop_entries:
  assumes "inj_on (\<lambda>j. uuidv4 (draw j)) {i..<10000}"
    and "\<forall>j\<in>{i..<10000}. JStr (uuidv4 (draw j)) \<notin> set (Map_keys (employees s))"
  shows "employees (seedLoop draw i s) =
           employees s @ map (\<lambda>j. (JStr (uuidv4 (draw j)), seedEmployee (draw j))) [i..<10000]"
  using assms
proof (induction draw i s rule: seedLoop.induct)
  case (1 draw i s)
  show ?case
  proof (cases "i < 10000")
    case False
    then show ?thesis by (simp add: seedLoop.simps[of draw i s])
  next
    case True
    let ?k = "JStr (uuidv4 (draw i))"
    let ?e = "seedEmployee (draw i)"
    let ?s' = "s\<lparr>employees := Map_set (employees s) (getProp ?e ''id'') ?e\<rparr>"
    from True "1.prems"(2) have "?k \<notin> set (Map_keys (employees s))" by simp
    then have fresh: "Map_get (employees s) ?k = None" by (simp add: Map_get_None_iff)
    then have emp': "employees ?s' = employees s @ [(?k, ?e)]"
      by (simp add: seedEmployee_id Map_set_fresh)
    have inj': "inj_on (\<lambda>j. uuidv4 (draw j)) {i + 1..<10000}"
      using "1.prems"(1) by (rule inj_on_subset) auto
    have notin': "\<forall>j\<in>{i + 1..<10000}. JStr (uuidv4 (draw j)) \<notin> set (Map_keys (employees ?s'))"
    proof
      fix j assume j: "j \<in> {i + 1..<10000}"
      with "1.prems"(2) have a: "JStr (uuidv4 (draw j)) \<notin> set (Map_keys (employees s))" by simp
      have "uuidv4 (draw j) \<noteq> uuidv4 (draw i)"
      proof
        assume "uuidv4 (draw j) = uuidv4 (draw i)"
        moreover from j True have "j \<in> {i..<10000}" "i \<in> {i..<10000}" by simp_all
        ultimately have "j = i" using "1.prems"(1) by (auto dest: inj_onD)
        with j show False by simp
      qed
      with a show "JStr (uuidv4 (draw j)) \<notin> set (Map_keys (employees ?s'))"
        by (simp add: emp' Map_keys_def)
    qed
    have "employees (seedLoop draw (i + 1) ?s') =
           employees ?s' @ map (\<lambda>j. (JStr (uuidv4 (draw j)), seedEmployee (draw j))) [i + 1..<10000]"
      using "1.IH"[OF True refl inj' notin'] .
    moreover have "seedLoop draw i s = seedLoop draw (i + 1) ?s'"
      using True by (simp add: seedLoop.simps[of draw i s] Let_def)
    moreover have "[i..<10000] = i # [i + 1..<10000]"
      using True by (simp add: upt_conv_Cons)
    ultimately show ?thesis by (simp add: emp')
  qed
qed










lemma newEmployeeStore_entries:
  assumes "inj_on (\<lambda>j. uuidv4 (draw j)) {..<10000}"
  shows "employees (newEmployeeStore draw) =
           map (\<lambda>j. (JStr (uuidv4 (draw j)), seedEmployee (draw j))) [0..<10000]"
proof -
  have "{0..<10000::nat} = {..<10000}" by auto
  with assms have "inj_on (\<lambda>j. uuidv4 (draw j)) {0..<10000}" by simp
  from seedLoop_entries[OF this, of "\<lparr>employees = []\<rparr>"] show ?thesis
    by (simp add: newEmployeeStore_def seedData_def Map_keys_def)
qed

lemma newEmployeeStore_count:
  "inj_on (\<lambda>j. uuidv4 (draw j)) {..<10000} \<Longrightarrow> count (newEmployeeStore draw) = 10000"
  by (simp add: count_def Map_size_def newEmployeeStore_entries)

lemma newEmployeeStore_keys:
  "inj_on (\<lambda>j. uuidv4 (draw j)) {..<10000} \<Longrightarrow>
     Map_keys (employees (newEmployeeStore draw)) = map (\<lambda>j. JStr (uuidv4 (draw j))) [0..<10000]"
  by (simp add: Map_keys_def newEmployeeStore_entries comp_def)



lemma exampleDraw_inj: "inj_on (\<lambda>j. uuidv4 (exampleDraw j)) A"
proof (rule inj_onI)
  fix x y assume "uuidv4 (exampleDraw x) = uuidv4 (exampleDraw y)"
  then have "length (replicate (Suc x) (CHR ''u'')) = length (replicate (Suc y) (CHR ''u''))"
    by (simp add: exampleDraw_def)
  then show "x = y" by simp
qed










section \<open>The salary invariant\<close>

text \<open>
  Claim C1. The table is to hold only records with a non-negative salary, after any
  sequence of requests. \<open>POST\<close> keeps that (\<open>post_keeps_salaries\<close>) and so does \<open>DELETE\<close>
  (\<open>delete_keeps_salaries\<close>), but \<open>PUT\<close> passes its body to \<open>update\<close> unchecked: on any
  store, creating the tests' employee and then sending \<open>{salary: -1}\<close> to its id is
  answered 200, and the record stored under that id has salary \<open>-1\<close>.
\<close>

theorem put_negative_salary_is_stored:
  "status (fst (postEmployees uuid now (Some johnDoe) s)) = 201
   \<and> status (fst (putEmployee uuid [''salary'' \<mapsto> JNum (- 1)]
                    (snd (postEmployees uuid now (Some johnDoe) s)))) = 200
   \<and> (\<exists>e. findById (snd (putEmployee uuid [''salary'' \<mapsto> JNum (- 1)]
                             (snd (postEmployees uuid now (Some johnDoe) s)))) uuid = Some e
          \<and> e ''salary'' = Some (JNum (- 1)))
   \<and> \<not> allSalariesNonNegative (snd (putEmployee uuid [''salary'' \<mapsto> JNum (- 1)]
                                      (snd (postEmployees uuid now (Some johnDoe) s))))"
proof -
  let ?e = "fst (create uuid now johnDoe s)"
  let ?s1 = "snd (create uuid now johnDoe s)"
  let ?u = "spread ?e [''salary'' \<mapsto> JNum (- 1)]"
  let ?s2 = "?s1\<lparr>employees := Map_set (employees ?s1) (JStr uuid) ?u\<rparr>"
  have key: "getProp ?e ''id'' = JStr uuid" by (simp add: create_id johnDoe_no_id)
  have f1: "findById ?s1 uuid = Some ?e"
    by (simp add: findById_def create_store key Map_get_set)
  have put: "putEmployee uuid [''salary'' \<mapsto> JNum (- 1)] ?s1 = (\<lparr>status = 200, body = EmployeeJson ?u\<rparr>, ?s2)"
    by (simp add: putEmployee_def update_found[OF f1])
  have f2: "findById ?s2 uuid = Some ?u" by (simp add: findById_def Map_get_set)
  have sal: "?u ''salary'' = Some (JNum (- 1))" by (simp add: spread_def)
  from f2 have "?u \<in> set (Map_values (employees ?s2))"
    unfolding findById_def by (rule Map_get_in_values)
  moreover from sal have "\<not> salaryNonNegative ?u" by (simp add: salaryNonNegative_def getProp_def)
  ultimately have bad: "\<not> allSalariesNonNegative ?s2"
    by (auto simp: allSalariesNonNegative_def list_all_iff)
  show ?thesis using f2 sal bad by (simp add: post_johnDoe put)
qed

theorem put_negative_salary_is_stored_witness:
  "allSalariesNonNegative (snd (postEmployees ''e1'' 0 (Some johnDoe) \<lparr>employees = []\<rparr>))
   \<and> status (fst (putEmployee ''e1'' [''salary'' \<mapsto> JNum (- 1)]
                    (snd (postEmployees ''e1'' 0 (Some johnDoe) \<lparr>employees = []\<rparr>)))) = 200
   \<and> \<not> allSalariesNonNegative (snd (putEmployee ''e1'' [''salary'' \<mapsto> JNum (- 1)]
                                      (snd (postEmployees ''e1'' 0 (Some johnDoe) \<lparr>employees = []\<rparr>))))"
proof -
  have "allSalariesNonNegative \<lparr>employees = []\<rparr>"
    by (simp add: allSalariesNonNegative_def Map_values_def)
  then have "allSalariesNonNegative (snd (postEmployees ''e1'' 0 (Some johnDoe) \<lparr>employees = []\<rparr>))"
    by (rule post_keeps_salaries)
  then show ?thesis
    using put_negative_salary_is_stored [of "''e1''" 0 "\<lparr>employees = []\<rparr>"] by simp
qed

section \<open>Updating a record\<close>

text \<open>
  Claim C2, as amended. For a stored record, \<open>update\<close> returns and stores, under the same
  key, the shallow merge of the record and the payload: every property the payload has
  overwrites the stored one, every property the payload lacks keeps its stored value. The
  \<open>id\<close> property is no exception: it keeps its value when the payload has no \<open>id\<close>
  property, which is what the declared payload type provides for. The number of records,
  the keys and every other record stay as they were.
\<close>

theorem update_shallow_merge:
  assumes "findById s eid = Some employee"
  shows "(\<exists>u. fst (update eid updateData s) = Some u
            \<and> findById (snd (update eid updateData s)) eid = Some u
            \<and> (\<forall>f v. updateData f = Some v \<longrightarrow> u f = Some v)
            \<and> (\<forall>f. updateData f = None \<longrightarrow> u f = employee f)
            \<and> (updateData ''id'' = None \<longrightarrow> u ''id'' = employee ''id''))
       \<and> count (snd (update eid updateData s)) = count s
       \<and> Map_keys (employees (snd (update eid updateData s))) = Map_keys (employees s)
       \<and> (\<forall>k. k \<noteq> JStr eid \<longrightarrow>
             Map_get (employees (snd (update eid updateData s))) k = Map_get (employees s) k)"
proof -
  let ?u = "spread employee updateData"
  note upd = update_found[OF assms, of updateData]
  from assms have g: "Map_get (employees s) (JStr eid) \<noteq> None" by (simp add: findById_def)
  have a: "fst (update eid updateData s) = Some ?u" by (simp add: upd)
  have b: "findById (snd (update eid updateData s)) eid = Some ?u"
    by (simp add: upd findById_def Map_get_set)
  have c: "\<forall>f v. updateData f = Some v \<longrightarrow> ?u f = Some v"
    by (simp add: spread_def map_add_def)
  have d: "\<forall>f. updateData f = None \<longrightarrow> ?u f = employee f"
    by (simp add: spread_def map_add_def)
  have e: "count (snd (update eid updateData s)) = count s"
    using g by (simp add: upd count_def Map_size_set)
  have f: "Map_keys (employees (snd (update eid updateData s))) = Map_keys (employees s)"
    using g by (simp add: upd Map_keys_set_present)
  have h: "\<forall>k. k \<noteq> JStr eid \<longrightarrow>
             Map_get (employees (snd (update eid updateData s))) k = Map_get (employees s) k"
    by (simp add: upd Map_get_set)
  from a b c d have "\<exists>u. fst (update eid updateData s) = Some u
            \<and> findById (snd (update eid updateData s)) eid = Some u
            \<and> (\<forall>f v. updateData f = Some v \<longrightarrow> u f = Some v)
            \<and> (\<forall>f. updateData f = None \<longrightarrow> u f = employee f)
            \<and> (updateData ''id'' = None \<longrightarrow> u ''id'' = employee ''id'')"
    by blast
  with e f h show ?thesis by blast
qed

theorem update_shallow_merge_witness:
  "findById johnStore ''e1'' = Some johnRecord
   \<and> (\<exists>u. fst (update ''e1'' [''salary'' \<mapsto> JNum 80000] johnStore) = Some u
          \<and> findById (snd (update ''e1'' [''salary'' \<mapsto> JNum 80000] johnStore)) ''e1'' = Some u
          \<and> u ''salary'' = Some (JNum 80000)
          \<and> u ''firstName'' = Some (JStr ''John'')
          \<and> u ''id'' = Some (JStr ''e1''))
   \<and> count (snd (update ''e1'' [''salary'' \<mapsto> JNum 80000] johnStore)) = count johnStore"
proof -
  have h: "findById johnStore ''e1'' = Some johnRecord"
    by (simp add: findById_def johnStore_employees)
  have r: "johnRecord ''firstName'' = Some (JStr ''John'')"
    by (simp add: johnRecord_def create_employee spread_def johnDoe_def)
  from update_shallow_merge [OF h, of "[''salary'' \<mapsto> JNum 80000]"]
  obtain u where u: "fst (update ''e1'' [''salary'' \<mapsto> JNum 80000] johnStore) = Some u"
      "findById (snd (update ''e1'' [''salary'' \<mapsto> JNum 80000] johnStore)) ''e1'' = Some u"
      "\<forall>f v. [''salary'' \<mapsto> JNum 80000] f = Some v \<longrightarrow> u f = Some v"
      "\<forall>f. [''salary'' \<mapsto> JNum 80000] f = None \<longrightarrow> u f = johnRecord f"
    and c: "count (snd (update ''e1'' [''salary'' \<mapsto> JNum 80000] johnStore)) = count johnStore"
    by blast
  from u(3) have s: "u ''salary'' = Some (JNum 80000)" by simp
  from u(4) have "u ''firstName'' = johnRecord ''firstName''" "u ''id'' = johnRecord ''id''"
    by simp_all
  with r johnRecord_id have "u ''firstName'' = Some (JStr ''John'')" "u ''id'' = Some (JStr ''e1'')"
    by simp_all
  with h u(1,2) s c show ?thesis by blast
qed

text \<open>
  The claim as written (the id is never altered, whatever the payload contains) fails for a
  payload that carries an \<open>id\<close> property: the record found under key \<open>e1\<close> then has
  id \<open>e2\<close>.
\<close>

theorem update_overwrites_id_counterexample:
  "findById johnStore ''e1'' = Some johnRecord
   \<and> johnRecord ''id'' = Some (JStr ''e1'')
   \<and> fst (update ''e1'' [''id'' \<mapsto> JStr ''e2''] johnStore) = Some (johnRecord(''id'' \<mapsto> JStr ''e2''))
   \<and> findById (snd (update ''e1'' [''id'' \<mapsto> JStr ''e2''] johnStore)) ''e1''
       = Some (johnRecord(''id'' \<mapsto> JStr ''e2''))
   \<and> (johnRecord(''id'' \<mapsto> JStr ''e2'')) ''id'' \<noteq> johnRecord ''id''"
proof -
  have h: "findById johnStore ''e1'' = Some johnRecord"
    by (simp add: findById_def johnStore_employees)
  have sp: "spread johnRecord [''id'' \<mapsto> JStr ''e2''] = johnRecord(''id'' \<mapsto> JStr ''e2'')"
    by (simp add: spread_def)
  show ?thesis
    using h johnRecord_id
    by (simp add: update_found[OF h] sp findById_def johnStore_employees)
qed

section \<open>The page window\<close>

text \<open>
  Claim C3. For \<open>page \<ge> 1\<close> and \<open>1 \<le> limit \<le> 100\<close>, the data of \<open>findAll\<close> are the
  records at offsets \<open>(page - 1) * limit\<close> up to \<open>(page - 1) * limit + limit - 1\<close> of the
  table's enumeration (insertion) order, as far as they exist: their number is
  \<open>min limit (max 0 (total - (page - 1) * limit))\<close>, the j-th of them is the record at offset
  \<open>(page - 1) * limit + j\<close>, and an offset at or past the total gives the empty list.
\<close>

theorem findAll_window:
  assumes "1 \<le> pg" and "1 \<le> lm" and "lm \<le> 100"
  shows "data (findAll s pg lm)
           = take (nat lm) (drop (nat ((pg - 1) * lm)) (Map_values (employees s)))
       \<and> int (length (data (findAll s pg lm))) = min lm (max 0 (int (count s) - (pg - 1) * lm))
       \<and> (\<forall>j<length (data (findAll s pg lm)).
             data (findAll s pg lm) ! j = Map_values (employees s) ! (nat ((pg - 1) * lm) + j))
       \<and> (int (count s) \<le> (pg - 1) * lm \<longrightarrow> data (findAll s pg lm) = [])"
proof -
  let ?vs = "Map_values (employees s)"
  let ?off = "(pg - 1) * lm"
  have d: "data (findAll s pg lm) = take (nat lm) (drop (nat ?off) ?vs)"
    using assms(1,2) by (rule findAll_data)
  have len: "length ?vs = count s" by (simp add: count_def Map_size_def Map_values_def)
  from assms have off: "0 \<le> ?off" by simp
  have l: "int (length (data (findAll s pg lm))) = min lm (max 0 (int (count s) - ?off))"
    using assms(2) off by (simp add: d len min_def max_def) linarith
  have n: "\<forall>j<length (data (findAll s pg lm)).
             data (findAll s pg lm) ! j = ?vs ! (nat ?off + j)"
    by (auto simp: d)
  have e: "int (count s) \<le> ?off \<longrightarrow> data (findAll s pg lm) = []"
    using off by (auto simp: d len)
  from d l n e show ?thesis by blast
qed

theorem findAll_window_witness:
  "(1::int) \<le> 1 \<and> (1::int) \<le> 5 \<and> (5::int) \<le> 100
   \<and> int (length (data (findAll (newEmployeeStore exampleDraw) 1 5))) = 5
   \<and> data (findAll (newEmployeeStore exampleDraw) 1 5)
        = take 5 (Map_values (employees (newEmployeeStore exampleDraw)))
   \<and> data (findAll (newEmployeeStore exampleDraw) 2001 5) = []"
proof -
  have c: "count (newEmployeeStore exampleDraw) = 10000"
    by (rule newEmployeeStore_count[OF exampleDraw_inj])
  have h: "(1::int) \<le> 1" "(1::int) \<le> 5" "(5::int) \<le> 100" "(1::int) \<le> 2001" by simp_all
  note first = findAll_window [OF h(1) h(2) h(3), of "newEmployeeStore exampleDraw"]
  note beyond = findAll_window [OF h(4) h(2) h(3), of "newEmployeeStore exampleDraw"]
  from first have a: "data (findAll (newEmployeeStore exampleDraw) 1 5)
        = take 5 (Map_values (employees (newEmployeeStore exampleDraw)))"
    by simp
  from first have "int (length (data (findAll (newEmployeeStore exampleDraw) 1 5)))
        = min 5 (max 0 (int (count (newEmployeeStore exampleDraw)) - (1 - 1) * 5))"
    by blast
  then have b: "int (length (data (findAll (newEmployeeStore exampleDraw) 1 5))) = 5"
    by (simp add: c)
  from beyond have "int (count (newEmployeeStore exampleDraw)) \<le> (2001 - 1) * 5 \<longrightarrow>
        data (findAll (newEmployeeStore exampleDraw) 2001 5) = []"
    by blast
  then have d: "data (findAll (newEmployeeStore exampleDraw) 2001 5) = []"
    by (simp add: c)
  from h a b d show ?thesis by blast
qed

section \<open>The pagination metadata\<close>

text \<open>
  Claim C4. For \<open>page \<ge> 1\<close> and \<open>1 \<le> limit \<le> 100\<close>, the metadata of \<open>findAll\<close> echo page
  and limit, total is the table size, totalPages is the ceiling of total / limit (which is
  \<open>(total + limit - 1) div limit\<close>, and 0 for an empty table), hasNext is
  \<open>page < totalPages\<close> and hasPrev is \<open>page > 1\<close>.
\<close>

theorem findAll_pagination:
  assumes "1 \<le> pg" and "1 \<le> lm" and "lm \<le> 100"
  shows "page (pagination (findAll s pg lm)) = pg
       \<and> limit (pagination (findAll s pg lm)) = lm
       \<and> total (pagination (findAll s pg lm)) = int (count s)
       \<and> totalPages (pagination (findAll s pg lm)) = \<lceil>real (count s) / real_of_int lm\<rceil>
       \<and> totalPages (pagination (findAll s pg lm)) = (int (count s) + lm - 1) div lm
       \<and> (count s = 0 \<longrightarrow> totalPages (pagination (findAll s pg lm)) = 0)
       \<and> hasNext (pagination (findAll s pg lm)) = (pg < totalPages (pagination (findAll s pg lm)))
       \<and> hasPrev (pagination (findAll s pg lm)) = (1 < pg)"
proof -
  have len: "int (length (Map_values (employees s))) = int (count s)"
    by (simp add: count_def Map_size_def Map_values_def)
  have tp: "totalPages (pagination (findAll s pg lm)) = \<lceil>real (count s) / real_of_int lm\<rceil>"
    by (simp add: findAll_def Let_def count_def Map_size_def Map_values_def)
  from assms(2) have "0 < lm" by simp
  from ceiling_div_int[OF this, of "int (count s)"]
  have dv: "\<lceil>real (count s) / real_of_int lm\<rceil> = (int (count s) + lm - 1) div lm" by simp
  have z: "count s = 0 \<longrightarrow> totalPages (pagination (findAll s pg lm)) = 0"
    by (simp add: tp)
  show ?thesis using tp dv z by (simp add: findAll_def Let_def len)
qed

theorem findAll_pagination_witness:
  "(1::int) \<le> 1 \<and> (1::int) \<le> 5 \<and> (5::int) \<le> 100
   \<and> total (pagination (findAll (newEmployeeStore exampleDraw) 1 5)) = 10000
   \<and> totalPages (pagination (findAll (newEmployeeStore exampleDraw) 1 5)) = 2000
   \<and> hasNext (pagination (findAll (newEmployeeStore exampleDraw) 1 5)) = True
   \<and> hasPrev (pagination (findAll (newEmployeeStore exampleDraw) 1 5)) = False"
proof -
  have c: "count (newEmployeeStore exampleDraw) = 10000"
    by (rule newEmployeeStore_count[OF exampleDraw_inj])
  have h: "(1::int) \<le> 1" "(1::int) \<le> 5" "(5::int) \<le> 100" by simp_all
  show ?thesis
    using h c findAll_pagination [OF h, of "newEmployeeStore exampleDraw"]
    by simp
qed

section \<open>Seeding\<close>




section \<open>Creating a record\<close>




section \<open>Unknown ids\<close>

text \<open>
  Claim C7. For an id that is not a key of the table, \<open>findById\<close> returns the not-found
  signal, \<open>update\<close> returns the not-found signal and \<open>delete\<close> returns false, and the
  store that \<open>update\<close> and \<open>delete\<close> hand back is the store they were given (\<open>findById\<close>
  has no store to hand back). The three routes answer 404 and leave the store alone too.
\<close>

theorem notFound_changes_nothing:
  assumes "JStr eid \<notin> set (Map_keys (employees s))"
  shows "findById s eid = None
       \<and> update eid updateData s = (None, s)
       \<and> delete eid s = (False, s)
       \<and> status (getEmployee eid s) = 404
       \<and> putEmployee eid updateData s = (\<lparr>status = 404, body = ErrorJson ''Employee not found''\<rparr>, s)
       \<and> deleteEmployee eid s = (\<lparr>status = 404, body = ErrorJson ''Employee not found''\<rparr>, s)"
proof -
  from assms have g: "Map_get (employees s) (JStr eid) = None"
    by (simp add: Map_get_None_iff)
  have f: "findById s eid = None" using g by (simp add: findById_def)
  have u: "update eid updateData s = (None, s)" using g by (simp add: update_def)
  have d: "delete eid s = (False, s)"
    using g by (simp add: delete_def Map_has_get Map_delete_absent)
  show ?thesis using f u d by (simp add: getEmployee_def putEmployee_def deleteEmployee_def)
qed

theorem notFound_changes_nothing_witness:
  "JStr ''non-existent-id'' \<notin> set (Map_keys (employees (snd (create ''e1'' 0 johnDoe \<lparr>employees = []\<rparr>))))
   \<and> findById (snd (create ''e1'' 0 johnDoe \<lparr>employees = []\<rparr>)) ''non-existent-id'' = None
   \<and> update ''non-existent-id'' [''salary'' \<mapsto> JNum 90000] (snd (create ''e1'' 0 johnDoe \<lparr>employees = []\<rparr>))
       = (None, snd (create ''e1'' 0 johnDoe \<lparr>employees = []\<rparr>))
   \<and> delete ''non-existent-id'' (snd (create ''e1'' 0 johnDoe \<lparr>employees = []\<rparr>))
       = (False, snd (create ''e1'' 0 johnDoe \<lparr>employees = []\<rparr>))"
proof -
  have h: "JStr ''non-existent-id'' \<notin> set (Map_keys (employees (snd (create ''e1'' 0 johnDoe \<lparr>employees = []\<rparr>))))"
    by (simp add: create_def Let_def Map_keys_def getProp_def spread_def johnDoe_def)
  show ?thesis using h notFound_changes_nothing [OF h] by simp
qed

section \<open>Deleting a stored record\<close>

text \<open>
  Claim C8. For an id that is a key of the table, \<open>delete\<close> returns true; afterwards
  \<open>findById\<close> of that id is the not-found signal, \<open>count\<close> is one less, and the table is the
  old table without the entry of that id: every other entry is still there, unchanged.
\<close>

theorem delete_existing:
  assumes "Map_ok (employees s)" and "JStr eid \<in> set (Map_keys (employees s))"
  shows "fst (delete eid s) = True
       \<and> findById (snd (delete eid s)) eid = None
       \<and> count (snd (delete eid s)) + 1 = count s
       \<and> employees (snd (delete eid s)) = filter (\<lambda>e. fst e \<noteq> JStr eid) (employees s)
       \<and> (\<forall>k. k \<noteq> JStr eid \<longrightarrow>
             Map_get (employees (snd (delete eid s))) k = Map_get (employees s) k)"
proof -
  from assms(2) have g: "Map_get (employees s) (JStr eid) \<noteq> None"
    by (simp add: Map_get_None_iff)
  have a: "fst (delete eid s) = True" using g by (simp add: delete_def Map_has_get)
  have b: "findById (snd (delete eid s)) eid = None"
    using assms(1) by (simp add: delete_def findById_def Map_get_delete)
  have c: "count (snd (delete eid s)) + 1 = count s"
    using Map_size_delete[OF g] by (simp add: delete_def count_def)
  have d: "employees (snd (delete eid s)) = filter (\<lambda>e. fst e \<noteq> JStr eid) (employees s)"
    using assms(1) by (simp add: delete_def Map_delete_filter)
  have e: "\<forall>k. k \<noteq> JStr eid \<longrightarrow>
             Map_get (employees (snd (delete eid s))) k = Map_get (employees s) k"
    using assms(1) by (simp add: delete_def Map_get_delete)
  from a b c d e show ?thesis by blast
qed

theorem delete_existing_witness:
  "Map_ok (employees (snd (create ''e1'' 0 johnDoe \<lparr>employees = []\<rparr>)))
   \<and> JStr ''e1'' \<in> set (Map_keys (employees (snd (create ''e1'' 0 johnDoe \<lparr>employees = []\<rparr>))))
   \<and> fst (delete ''e1'' (snd (create ''e1'' 0 johnDoe \<lparr>employees = []\<rparr>))) = True
   \<and> findById (snd (delete ''e1'' (snd (create ''e1'' 0 johnDoe \<lparr>employees = []\<rparr>)))) ''e1'' = None
   \<and> count (snd (delete ''e1'' (snd (create ''e1'' 0 johnDoe \<lparr>employees = []\<rparr>)))) + 1
       = count (snd (create ''e1'' 0 johnDoe \<lparr>employees = []\<rparr>))"
proof -
  have ok: "Map_ok (employees (snd (create ''e1'' 0 johnDoe \<lparr>employees = []\<rparr>)))"
    by (simp add: create_store Map_ok_def Map_keys_def)
  have mem: "JStr ''e1'' \<in> set (Map_keys (employees (snd (create ''e1'' 0 johnDoe \<lparr>employees = []\<rparr>))))"
    by (simp add: create_store create_id johnDoe_no_id Map_keys_def)
  show ?thesis using ok mem delete_existing [OF ok mem] by simp
qed

section \<open>Rejected create requests\<close>

text \<open>
  Claim C9. A create request that lacks a required field is to be answered with a client
  error before \<open>create\<close> runs. On an object body that is what happens
  (\<open>post_rejects_object_body\<close>). A request that arrives with no parsed body, so that
  \<open>req.body\<close> is \<open>undefined\<close>, lacks every field, and there the middleware throws at its
  unguarded destructuring: the answer of the route is 500, not a client error. The store
  comes back as it went in, so \<open>count\<close> is unchanged.
\<close>

theorem post_without_body_is_answered_500:
  "validateCreateEmployee None = Throws
   \<and> postEmployees uuid now None s = (\<lparr>status = 500, body = ErrorPage\<rparr>, s)
   \<and> status (fst (postEmployees uuid now None s)) \<noteq> 400
   \<and> count (snd (postEmployees uuid now None s)) = count s"
proof -
  have t: "validateCreateEmployee None = Throws"
    by (simp add: validateCreateEmployee_def)
  then have p: "postEmployees uuid now None s = (\<lparr>status = 500, body = ErrorPage\<rparr>, s)"
    by (simp add: postEmployees_def)
  from t p show ?thesis by simp
qed

theorem post_without_body_is_answered_500_witness:
  "postEmployees ''e2'' 1 None johnStore = (\<lparr>status = 500, body = ErrorPage\<rparr>, johnStore)
   \<and> (\<exists>msg. postEmployees ''e2'' 1 (Some [''firstName'' \<mapsto> JStr ''John'']) johnStore
               = (\<lparr>status = 400, body = ErrorJson msg\<rparr>, johnStore))"
proof -
  have "[''firstName'' \<mapsto> JStr ''John''] ''lastName'' = None" by simp
  then have "\<exists>msg. postEmployees ''e2'' 1 (Some [''firstName'' \<mapsto> JStr ''John'']) johnStore
               = (\<lparr>status = 400, body = ErrorJson msg\<rparr>, johnStore)"
    by (intro post_rejects_object_body) blast
  with post_without_body_is_answered_500 [of "''e2''" 1 johnStore] show ?thesis by blast
qed

section \<open>Enumeration order\<close>



end
